theory Spec2Isabelle
  imports Complex_Main
begin

section \<open>JavaScript values\<close>

text \<open>
  The values the handlers receive (parsed JSON bodies, form fields, fields that are
  absent). A JavaScript number that comes out of \<open>JSON.parse\<close> is a finite double;
  the only operations the modelled code applies to numbers are \<open>=== 1\<close> and the
  truthiness test, so a number is modelled by the rational it denotes.
\<close>

datatype jsval =
    JUndefined
  | JNull
  | JBool bool
  | JNum rat
  | JStr string
  | JArr "jsval list"
  | JObj "(string \<times> jsval) list"

text \<open>Truthiness (\<open>ToBoolean\<close>): what \<open>!v\<close>, \<open>v && ...\<close> and \<open>if (v)\<close> test.\<close>

fun truthy :: "jsval \<Rightarrow> bool" where
  "truthy JUndefined = False"
| "truthy JNull = False"
| "truthy (JBool b) = b"
| "truthy (JNum r) = (r \<noteq> 0)"
| "truthy (JStr s) = (s \<noteq> [])"
| "truthy (JArr xs) = True"
| "truthy (JObj kvs) = True"

text \<open>
  Strict equality \<open>v === lit\<close> against a primitive literal: same type and same value.
  An array or object is never strictly equal to a primitive.
\<close>

fun strict_eq :: "jsval \<Rightarrow> jsval \<Rightarrow> bool" where
  "strict_eq JUndefined JUndefined = True"
| "strict_eq JNull JNull = True"
| "strict_eq (JBool a) (JBool b) = (a = b)"
| "strict_eq (JNum a) (JNum b) = (a = b)"
| "strict_eq (JStr a) (JStr b) = (a = b)"
| "strict_eq _ _ = False"

section \<open>Boolean coercion helpers (server.js 290-333, index.js 971-1014)\<close>

definition toYesNo :: "jsval \<Rightarrow> string" where
  "toYesNo v =
     (if strict_eq v (JBool True) \<or> strict_eq v (JStr ''true'') \<or> strict_eq v (JNum 1) \<or>
         strict_eq v (JStr ''1'') \<or> strict_eq v (JStr ''Yes'') \<or> strict_eq v (JStr ''yes'') \<or>
         strict_eq v (JStr ''on'')
      then ''Yes'' else ''No'')"

definition toBoolean :: "jsval \<Rightarrow> bool" where
  "toBoolean v =
     (if strict_eq v (JBool True) \<or> strict_eq v (JStr ''true'') \<or> strict_eq v (JNum 1) \<or>
         strict_eq v (JStr ''1'') \<or> strict_eq v (JStr ''Yes'') \<or> strict_eq v (JStr ''yes'') \<or>
         strict_eq v (JStr ''on'')
      then True else False)"

definition toYesNoNumber :: "jsval \<Rightarrow> nat" where
  "toYesNoNumber v =
     (if strict_eq v (JBool True) \<or> strict_eq v (JStr ''true'') \<or> strict_eq v (JNum 1) \<or>
         strict_eq v (JStr ''1'') \<or> strict_eq v (JStr ''Yes'') \<or> strict_eq v (JStr ''yes'') \<or>
         strict_eq v (JStr ''on'')
      then 1 else 0)"

text \<open>The copies that index.js declares inline in the finance route.\<close>

definition toYesNo_inline :: "jsval \<Rightarrow> string" where
  "toYesNo_inline v =
     (if strict_eq v (JBool True) \<or> strict_eq v (JStr ''true'') \<or> strict_eq v (JNum 1) \<or>
         strict_eq v (JStr ''1'') \<or> strict_eq v (JStr ''Yes'') \<or> strict_eq v (JStr ''yes'') \<or>
         strict_eq v (JStr ''on'')
      then ''Yes'' else ''No'')"

definition toBoolean_inline :: "jsval \<Rightarrow> bool" where
  "toBoolean_inline v =
     (if strict_eq v (JBool True) \<or> strict_eq v (JStr ''true'') \<or> strict_eq v (JNum 1) \<or>
         strict_eq v (JStr ''1'') \<or> strict_eq v (JStr ''Yes'') \<or> strict_eq v (JStr ''yes'') \<or>
         strict_eq v (JStr ''on'')
      then True else False)"

definition toYesNoNumber_inline :: "jsval \<Rightarrow> nat" where
  "toYesNoNumber_inline v =
     (if strict_eq v (JBool True) \<or> strict_eq v (JStr ''true'') \<or> strict_eq v (JNum 1) \<or>
         strict_eq v (JStr ''1'') \<or> strict_eq v (JStr ''Yes'') \<or> strict_eq v (JStr ''yes'') \<or>
         strict_eq v (JStr ''on'')
      then 1 else 0)"

text \<open>The truthy-literal set the claim names.\<close>

definition truthy_literals :: "jsval set" where
  "truthy_literals =
     {JBool True, JStr ''true'', JNum 1, JStr ''1'', JStr ''Yes'', JStr ''yes'', JStr ''on''}"

section \<open>Number formatting\<close>

text \<open>\<open>n.toString()\<close> for a non-negative integer: its decimal digits.\<close>

definition digit_char :: "nat \<Rightarrow> char" where
  "digit_char d = ''0123456789'' ! d"

function toString_nat :: "nat \<Rightarrow> string" where
  "toString_nat n =
     (if n < 10 then [digit_char n] else toString_nat (n div 10) @ [digit_char (n mod 10)])"
  by pat_completeness auto
termination
  by (relation "measure id") auto

declare toString_nat.simps [simp del]

section \<open>Errors, property reads and the HTTP client\<close>

text \<open>
  What can be thrown in the modelled code: \<open>new Error(msg)\<close>, the engine's
  \<open>TypeError\<close> for a property read on \<open>null\<close> or \<open>undefined\<close>, and the error
  axios rejects with, whose \<open>response\<close> field (status and parsed body) is present
  only when the server answered.
\<close>

datatype js_error =
    JsError string
  | JsTypeError string
  | AxiosError string "(nat \<times> jsval) option"

fun message_of :: "js_error \<Rightarrow> string" where
  "message_of (JsError m) = m"
| "message_of (JsTypeError m) = m"
| "message_of (AxiosError m r) = m"

fun response_of :: "js_error \<Rightarrow> (nat \<times> jsval) option" where
  "response_of (AxiosError m r) = r"
| "response_of _ = None"

text \<open>
  \<open>v.key\<close> for the two keys the token code reads (\<open>access_token\<close>, \<open>error\<close>):
  it throws on \<open>null\<close> and \<open>undefined\<close>, looks the key up in an object, and is
  \<open>undefined\<close> on every other value (neither key is a property of a string, number,
  boolean or array).
\<close>

definition cannot_read :: "string \<Rightarrow> string \<Rightarrow> string" where
  "cannot_read what key =
     ''Cannot read properties of '' @ what @ '' (reading '' @ [CHR 0x27] @ key @ [CHR 0x27] @ '')''"

fun get_prop :: "jsval \<Rightarrow> string \<Rightarrow> js_error + jsval" where
  "get_prop JUndefined key = Inl (JsTypeError (cannot_read ''undefined'' key))"
| "get_prop JNull key = Inl (JsTypeError (cannot_read ''null'' key))"
| "get_prop (JObj kvs) key = (case map_of kvs key of Some v \<Rightarrow> Inr v | None \<Rightarrow> Inr JUndefined)"
| "get_prop _ key = Inr JUndefined"

text \<open>
  What the network does with one request: the server answers with a status and a body
  (already parsed by axios), or no answer arrives (connection error, or the request's
  \<open>timeout\<close> elapses), and axios reports that with a message.
\<close>

datatype http_reply =
    Responded nat jsval
  | NoResponse string

text \<open>
  One axios request under a \<open>validateStatus\<close> predicate, as axios documents it: the
  promise is fulfilled with the response when the predicate accepts its status, and
  rejected otherwise with an error that holds the response; without an answer it is
  rejected with an error that holds none.
\<close>

definition axios_request :: "(nat \<Rightarrow> bool) \<Rightarrow> http_reply \<Rightarrow> js_error + (nat \<times> jsval)" where
  "axios_request validateStatus reply =
     (case reply of
        Responded status body \<Rightarrow>
          if validateStatus status then Inr (status, body)
          else Inl (AxiosError (''Request failed with status code '' @ toString_nat status)
                      (Some (status, body)))
      | NoResponse msg \<Rightarrow> Inl (AxiosError msg None))"

text \<open>The predicate axios uses when the caller gives none.\<close>

definition validateStatus_default :: "nat \<Rightarrow> bool" where
  "validateStatus_default status = (200 \<le> status \<and> status < 300)"

section \<open>Token cache\<close>

text \<open>
  The two module variables, \<open>zohoAccessToken\<close> and \<open>tokenExpiryTime\<close>. The expiry is
  \<open>null\<close> (\<open>None\<close>) or a number of milliseconds since the epoch. \<open>Date.now()\<close> is
  an integer well below \<open>2^53\<close>, so \<open>now + 55 * 60 * 1000\<close> is exact.
\<close>

record token_cache =
  zohoAccessToken :: jsval
  tokenExpiryTime :: "int option"

definition empty_cache :: token_cache where
  "empty_cache = \<lparr>zohoAccessToken = JNull, tokenExpiryTime = None\<rparr>"

text \<open>The cache test of both variants:
  \<open>zohoAccessToken && tokenExpiryTime && now < tokenExpiryTime\<close>.\<close>

definition cache_usable :: "int \<Rightarrow> token_cache \<Rightarrow> bool" where
  "cache_usable now c =
     (truthy (zohoAccessToken c) \<and>
      (case tokenExpiryTime c of None \<Rightarrow> False | Some e \<Rightarrow> e \<noteq> 0 \<and> now < e))"

text \<open>The upstream calls one \<open>getZohoAccessToken()\<close> makes, in order.\<close>

datatype upstream_call = ProbeCall jsval | ExchangeCall

subsection \<open>server.js 136-215\<close>

definition validateZohoToken :: "http_reply \<Rightarrow> bool" where
  "validateZohoToken reply =
     (case axios_request validateStatus_default reply of
        Inr (status, body) \<Rightarrow> status = 200
      | Inl error \<Rightarrow> False)"

text \<open>The body of the \<open>try\<close>: the exchange request and the check of its answer.\<close>

definition exchange_try :: "http_reply \<Rightarrow> js_error + jsval" where
  "exchange_try reply =
     (case axios_request validateStatus_default reply of
        Inl error \<Rightarrow> Inl error
      | Inr (status, data) \<Rightarrow>
          (case get_prop data ''access_token'' of
             Inl error \<Rightarrow> Inl error
           | Inr tok \<Rightarrow>
               if \<not> truthy tok then Inl (JsError ''No access token in response'')
               else Inr tok))"

text \<open>
  The \<open>catch\<close> block, after it has cleared the cache: when the error has a response it
  reads \<open>error.response.data.error\<close> for the log (which throws on a \<open>null\<close> body),
  then throws the wrapped error.
\<close>

definition exchange_catch :: "js_error \<Rightarrow> js_error" where
  "exchange_catch error =
     (case response_of error of
        Some (status, data) \<Rightarrow>
          (case get_prop data ''error'' of
             Inl type_error \<Rightarrow> type_error
           | Inr v \<Rightarrow> JsError (''Failed to get Zoho access token: '' @ message_of error))
      | None \<Rightarrow> JsError (''Failed to get Zoho access token: '' @ message_of error))"

definition refresh :: "int \<Rightarrow> http_reply \<Rightarrow> token_cache \<Rightarrow> (js_error + jsval) \<times> token_cache" where
  "refresh now reply c =
     (case exchange_try reply of
        Inr tok \<Rightarrow>
          (Inr tok, c\<lparr>zohoAccessToken := tok, tokenExpiryTime := Some (now + 55 * 60 * 1000)\<rparr>)
      | Inl error \<Rightarrow>
          (Inl (exchange_catch error), c\<lparr>zohoAccessToken := JNull, tokenExpiryTime := None\<rparr>))"

text \<open>
  \<open>getZohoAccessToken()\<close> of server.js, called at time \<open>now\<close> on cache \<open>c\<close>;
  \<open>probe\<close> and \<open>exchange\<close> are what the network does with the validation request and
  with the token request, should the call make them. It returns the token or the error
  thrown, the cache it leaves, and the upstream calls it made.
\<close>

definition getZohoAccessToken ::
  "int \<Rightarrow> http_reply \<Rightarrow> http_reply \<Rightarrow> token_cache \<Rightarrow>
     (js_error + jsval) \<times> token_cache \<times> upstream_call list" where
  "getZohoAccessToken now probe exchange c =
     (if cache_usable now c then
        (if validateZohoToken probe then
           (Inr (zohoAccessToken c), c, [ProbeCall (zohoAccessToken c)])
         else
           (let c1 = c\<lparr>zohoAccessToken := JNull, tokenExpiryTime := None\<rparr>;
                (r, c2) = refresh now exchange c1
            in (r, c2, [ProbeCall (zohoAccessToken c), ExchangeCall])))
      else
        (let (r, c2) = refresh now exchange c in (r, c2, [ExchangeCall])))"

subsection \<open>index.js 38-72\<close>

text \<open>
  The index.js variant: no probe, no \<open>try\<close>/\<open>catch\<close>, no check of the answer. An error
  of the request, or of the property read, leaves the function before either variable is
  assigned.
\<close>

definition getZohoAccessToken_index ::
  "int \<Rightarrow> http_reply \<Rightarrow> token_cache \<Rightarrow> (js_error + jsval) \<times> token_cache \<times> upstream_call list" where
  "getZohoAccessToken_index now exchange c =
     (if cache_usable now c then (Inr (zohoAccessToken c), c, [])
      else
        (case axios_request validateStatus_default exchange of
           Inl error \<Rightarrow> (Inl error, c, [ExchangeCall])
         | Inr (status, data) \<Rightarrow>
             (case get_prop data ''access_token'' of
                Inl error \<Rightarrow> (Inl error, c, [ExchangeCall])
              | Inr tok \<Rightarrow>
                  (Inr tok,
                   c\<lparr>zohoAccessToken := tok, tokenExpiryTime := Some (now + 55 * 60 * 1000)\<rparr>,
                   [ExchangeCall]))))"

text \<open>Both variables set, or both absent (\<open>null\<close> or \<open>undefined\<close>).\<close>

definition pair_formed :: "token_cache \<Rightarrow> bool" where
  "pair_formed c =
     ((zohoAccessToken c \<in> {JNull, JUndefined}) = (tokenExpiryTime c = None))"

section \<open>Webhook fan-out\<close>

text \<open>
  \<open>Promise.allSettled\<close> turns every promise into a settled result, fulfilled with a
  value or rejected with a reason, in the order of its input; it never rejects itself.
\<close>

datatype settled =
    Fulfilled "nat \<times> jsval"
  | Rejected js_error

definition allSettled :: "(js_error + (nat \<times> jsval)) list \<Rightarrow> settled list" where
  "allSettled promises = map (case_sum Rejected Fulfilled) promises"

text \<open>The settled result of one request: what \<open>allSettled\<close> holds at its position.\<close>

definition settle :: "(nat \<Rightarrow> bool) \<Rightarrow> http_reply \<Rightarrow> settled" where
  "settle validateStatus reply = case_sum Rejected Fulfilled (axios_request validateStatus reply)"

text \<open>\<open>r.status === "fulfilled"\<close>\<close>

definition is_fulfilled :: "settled \<Rightarrow> bool" where
  "is_fulfilled r = (case r of Fulfilled v \<Rightarrow> True | Rejected reason \<Rightarrow> False)"

text \<open>The predicate the fan-outs pass: \<open>status >= 200 && status < 500\<close>.\<close>

definition validateStatus_webhook :: "nat \<Rightarrow> bool" where
  "validateStatus_webhook status = (200 \<le> status \<and> status < 500)"

text \<open>
  \<open>webhookUrls.map(url => axios.post(url, ...))\<close>: one request per list position.
  \<open>net i url\<close> is what the network does with the request at position \<open>i\<close>.
\<close>

definition webhook_requests ::
  "(nat \<Rightarrow> bool) \<Rightarrow> string list \<Rightarrow> (nat \<Rightarrow> string \<Rightarrow> http_reply) \<Rightarrow>
     (js_error + (nat \<times> jsval)) list" where
  "webhook_requests validateStatus webhookUrls net =
     map (\<lambda>(i, url). axios_request validateStatus (net i url)) (enumerate 0 webhookUrls)"

text \<open>The test of the \<open>forEach\<close>:
  \<open>result.status === "fulfilled" && result.value.status < 400\<close>.\<close>

definition webhook_succeeded :: "settled \<Rightarrow> bool" where
  "webhook_succeeded result =
     (case result of Fulfilled (status, body) \<Rightarrow> status < 400 | Rejected reason \<Rightarrow> False)"

text \<open>The \<open>forEach\<close> of the claims route, on the counters (successCount, failureCount).\<close>

fun count_results :: "settled list \<Rightarrow> nat \<times> nat \<Rightarrow> nat \<times> nat" where
  "count_results [] (s, f) = (s, f)"
| "count_results (result # results) (s, f) =
     (if webhook_succeeded result then count_results results (s + 1, f)
      else count_results results (s, f + 1))"

text \<open>What a route sends: \<open>res.status(code).json({...})\<close>, with the fields it sets.\<close>

record route_response =
  http_status :: nat
  success :: bool
  message :: string
  webhookSuccess :: "nat option"
  webhookFailed :: "nat option"

subsection \<open>POST /api/claims: server.js 344-448, index.js 74-186, unnamed/part_000\<close>

text \<open>
  The route from the check of the supplier name on. The claim number and the parsing of
  the nested JSON fields (whose errors are caught and logged) do not touch the fan-out.
\<close>

definition claims_route ::
  "jsval \<Rightarrow> string list \<Rightarrow> (nat \<Rightarrow> string \<Rightarrow> http_reply) \<Rightarrow> route_response" where
  "claims_route supplierName webhookUrls net =
     (if \<not> truthy supplierName then
        \<lparr>http_status = 400, success = False, message = ''Supplier Name is required'',
         webhookSuccess = None, webhookFailed = None\<rparr>
      else if length webhookUrls = 0 then
        \<lparr>http_status = 500, success = False, message = ''No webhook URLs configured'',
         webhookSuccess = None, webhookFailed = None\<rparr>
      else
        (let results = allSettled (webhook_requests validateStatus_webhook webhookUrls net);
             (s, f) = count_results results (0, 0)
         in \<lparr>http_status = 200, success = True, message = ''Claim processed'',
             webhookSuccess = Some s, webhookFailed = Some f\<rparr>))"

subsection \<open>POST /api/claims, first variant: server.js 46-93\<close>

text \<open>
  No check of the list, no \<open>validateStatus\<close> (so axios applies its default), and only
  the fulfilled promises are counted.
\<close>

definition claims_route_v1 ::
  "jsval \<Rightarrow> string list \<Rightarrow> (nat \<Rightarrow> string \<Rightarrow> http_reply) \<Rightarrow> route_response" where
  "claims_route_v1 supplierName webhookUrls net =
     (if \<not> truthy supplierName then
        \<lparr>http_status = 400, success = False, message = ''Supplier Name required'',
         webhookSuccess = None, webhookFailed = None\<rparr>
      else
        (let results = allSettled (webhook_requests validateStatus_default webhookUrls net);
             successCount = length (filter is_fulfilled results)
         in \<lparr>http_status = 200, success = True, message = ''Claim and file processed'',
             webhookSuccess = Some successCount, webhookFailed = None\<rparr>))"

subsection \<open>POST /api/vendors, webhook section: server.js 963-1004\<close>

text \<open>
  An entry of \<open>webhookResults.details\<close>: \<open>{url, status: "success", statusCode}\<close> or
  \<open>{url, status: "failed", error}\<close>.
\<close>

datatype webhook_detail =
    DetailSuccess string nat
  | DetailFailed string string

record webhook_results =
  successCount :: nat
  failureCount :: nat
  details :: "webhook_detail list"

text \<open>\<open>result.reason?.message || "Unknown error"\<close>\<close>

definition reason_message :: "settled \<Rightarrow> string" where
  "reason_message result =
     (case result of
        Rejected reason \<Rightarrow> if message_of reason \<noteq> [] then message_of reason else ''Unknown error''
      | Fulfilled v \<Rightarrow> ''Unknown error'')"

text \<open>The \<open>else\<close> branch of the \<open>forEach\<close>.\<close>

definition vendor_failed :: "string \<Rightarrow> settled \<Rightarrow> webhook_results \<Rightarrow> webhook_results" where
  "vendor_failed url result w =
     w\<lparr>failureCount := failureCount w + 1,
       details := details w @ [DetailFailed url (reason_message result)]\<rparr>"

text \<open>The \<open>forEach\<close>, on each result with \<open>webhookUrls[index]\<close>.\<close>

fun vendor_forEach :: "(string \<times> settled) list \<Rightarrow> webhook_results \<Rightarrow> webhook_results" where
  "vendor_forEach [] w = w"
| "vendor_forEach ((url, Fulfilled (status, body)) # rest) w =
     (if status < 400 then
        vendor_forEach rest
          (w\<lparr>successCount := successCount w + 1,
             details := details w @ [DetailSuccess url status]\<rparr>)
      else vendor_forEach rest (vendor_failed url (Fulfilled (status, body)) w))"
| "vendor_forEach ((url, Rejected reason) # rest) w =
     vendor_forEach rest (vendor_failed url (Rejected reason) w)"

definition vendor_webhooks ::
  "string list \<Rightarrow> (nat \<Rightarrow> string \<Rightarrow> http_reply) \<Rightarrow> webhook_results" where
  "vendor_webhooks webhookUrls net =
     (let webhookResults = \<lparr>successCount = 0, failureCount = 0, details = []\<rparr>
      in if length webhookUrls > 0 then
           vendor_forEach
             (zip webhookUrls (allSettled (webhook_requests validateStatus_webhook webhookUrls net)))
             webhookResults
         else webhookResults)"

subsection \<open>POST /api/vendors, webhook section: index.js 433-481\<close>

definition vendor_webhooks_index ::
  "string list \<Rightarrow> (nat \<Rightarrow> string \<Rightarrow> http_reply) \<Rightarrow> route_response" where
  "vendor_webhooks_index webhookUrls net =
     (if length webhookUrls = 0 then
        \<lparr>http_status = 500, success = False, message = ''No vendor webhook URLs configured'',
         webhookSuccess = None, webhookFailed = None\<rparr>
      else
        (let results = allSettled (webhook_requests validateStatus_webhook webhookUrls net);
             (s, f) = count_results results (0, 0)
         in \<lparr>http_status = 200, success = True, message = ''Vendor processed successfully'',
             webhookSuccess = Some s, webhookFailed = Some f\<rparr>))"

subsection \<open>One target's entry, and networks given by a list\<close>

text \<open>
  The entry of \<open>details\<close> that one settled result produces in \<open>vendor_forEach\<close>, taken
  by itself: the properties below show that the entry at each position is this function of
  that position's own result.
\<close>

fun vendor_detail :: "string \<Rightarrow> settled \<Rightarrow> webhook_detail" where
  "vendor_detail url (Fulfilled (status, body)) =
     (if status < 400 then DetailSuccess url status
      else DetailFailed url (reason_message (Fulfilled (status, body))))"
| "vendor_detail url (Rejected reason) = DetailFailed url (reason_message (Rejected reason))"

text \<open>
  A network that answers the request at position \<open>i\<close> with the \<open>i\<close>-th reply of a
  list, and refuses the connection beyond the list.
\<close>

definition net_of :: "http_reply list \<Rightarrow> nat \<Rightarrow> string \<Rightarrow> http_reply" where
  "net_of replies i url =
     (if i < length replies then replies ! i else NoResponse ''connect ECONNREFUSED'')"

section \<open>Cash slip token\<close>

text \<open>The fields of \<open>new Date()\<close> that \<open>generateToken\<close> reads (\<open>getMonth\<close> counts from 0).\<close>

record js_date =
  getFullYear :: nat
  getMonth :: nat
  getDate :: nat
  getHours :: nat
  getMinutes :: nat
  getSeconds :: nat

definition padStart :: "nat \<Rightarrow> char \<Rightarrow> string \<Rightarrow> string" where
  "padStart n c s = replicate (n - length s) c @ s"

text \<open>\<open>s.slice(-k)\<close>: the last \<open>k\<close> characters, or all of \<open>s\<close> when it is shorter.\<close>

definition slice_last :: "nat \<Rightarrow> string \<Rightarrow> string" where
  "slice_last k s = drop (length s - k) s"

definition pad :: "nat \<Rightarrow> string" where
  "pad n = padStart 2 (CHR ''0'') (toString_nat n)"

definition generateToken :: "js_date \<Rightarrow> string" where
  "generateToken now =
     ''CS'' @ slice_last 2 (toString_nat (getFullYear now)) @ pad (getMonth now + 1) @
     pad (getDate now) @ pad (getHours now) @ pad (getMinutes now) @ pad (getSeconds now)"

text \<open>
  index.js 667: \<open>const tokenNumber = generateToken()\<close> runs once, when the module is
  loaded; the sales route (index.js 723) puts that constant into the payload.
  server.js 1359 calls \<open>generateToken()\<close> while it builds the payload of each request.
\<close>

record index_module =
  tokenNumber :: string

definition load_index_module :: "js_date \<Rightarrow> index_module" where
  "load_index_module now = \<lparr>tokenNumber = generateToken now\<rparr>"

definition sales_create_Name_index :: "index_module \<Rightarrow> js_date \<Rightarrow> string" where
  "sales_create_Name_index m request_time = tokenNumber m"

definition sales_create_Name :: "js_date \<Rightarrow> string" where
  "sales_create_Name request_time = generateToken request_time"

section \<open>Properties of the token cache\<close>

lemma refresh_cases:
  "exchange_try reply = Inr tok \<Longrightarrow>
     refresh now reply c =
       (Inr tok, \<lparr>zohoAccessToken = tok, tokenExpiryTime = Some (now + 55 * 60 * 1000)\<rparr>)"
  "exchange_try reply = Inl error \<Longrightarrow>
     refresh now reply c = (Inl (exchange_catch error), empty_cache)"
  by (simp_all add: refresh_def empty_cache_def)

lemma exchange_try_truthy: "exchange_try reply = Inr tok \<Longrightarrow> truthy tok"
  by (auto simp: exchange_try_def split: sum.splits prod.splits if_splits)

lemma validate_iff: "validateZohoToken probe = (\<exists>body. probe = Responded 200 body)"
  by (auto simp: validateZohoToken_def axios_request_def validateStatus_default_def
      split: http_reply.splits sum.splits)

subsection \<open>Expiry\<close>

lemma server_exchange_success:
  assumes "getZohoAccessToken T probe exchange c = (Inr tok, c', calls)"
    and "ExchangeCall \<in> set calls"
  shows "c' = \<lparr>zohoAccessToken = tok, tokenExpiryTime = Some (T + 55 * 60 * 1000)\<rparr>"
  using assms
  by (cases "exchange_try exchange")
     (auto simp: getZohoAccessToken_def refresh_cases split: if_splits)

lemma server_later_call:
  assumes "getZohoAccessToken T' p x \<lparr>zohoAccessToken = tok, tokenExpiryTime = Some E\<rparr>
             = (r, c'', calls)"
  shows "(ExchangeCall \<notin> set calls \<longrightarrow>
            T' < E \<and> r = Inr tok \<and> c'' = \<lparr>zohoAccessToken = tok, tokenExpiryTime = Some E\<rparr>) \<and>
         (E \<le> T' \<longrightarrow> ExchangeCall \<in> set calls)"
  using assms
  by (cases "exchange_try x")
     (auto simp: getZohoAccessToken_def refresh_cases cache_usable_def split: if_splits)

lemma index_exchange_success:
  assumes "getZohoAccessToken_index T exchange c = (Inr tok, c', calls)"
    and "ExchangeCall \<in> set calls"
  shows "c' = \<lparr>zohoAccessToken = tok, tokenExpiryTime = Some (T + 55 * 60 * 1000)\<rparr>"
  using assms
  by (auto simp: getZohoAccessToken_index_def split: if_splits sum.splits prod.splits)

lemma index_later_call:
  assumes "getZohoAccessToken_index T' x \<lparr>zohoAccessToken = tok, tokenExpiryTime = Some E\<rparr>
             = (r, c'', calls)"
  shows "(ExchangeCall \<notin> set calls \<longrightarrow>
            T' < E \<and> r = Inr tok \<and> c'' = \<lparr>zohoAccessToken = tok, tokenExpiryTime = Some E\<rparr>) \<and>
         (E \<le> T' \<longrightarrow> ExchangeCall \<in> set calls)"
  using assms
  by (auto simp: getZohoAccessToken_index_def cache_usable_def
      split: if_splits sum.splits prod.splits)

text \<open>
  Before the expiry a cached token is in fact reused (server.js: when the probe accepts
  it). The side condition excludes the one clock value at which the stored expiry would be
  the falsy number 0.
\<close>

lemma cache_reused_before_expiry:
  assumes "truthy tok" and "T' < E" and "E \<noteq> 0"
  shows "getZohoAccessToken T' (Responded 200 body) x \<lparr>zohoAccessToken = tok, tokenExpiryTime = Some E\<rparr>
           = (Inr tok, \<lparr>zohoAccessToken = tok, tokenExpiryTime = Some E\<rparr>, [ProbeCall tok])"
    and "getZohoAccessToken_index T' x \<lparr>zohoAccessToken = tok, tokenExpiryTime = Some E\<rparr>
           = (Inr tok, \<lparr>zohoAccessToken = tok, tokenExpiryTime = Some E\<rparr>, [])"
  using assms
  by (simp_all add: getZohoAccessToken_def getZohoAccessToken_index_def cache_usable_def
      validate_iff)

text \<open>
  C1. Expiry math, in both variants (server.js 154-215, index.js 41-72). When a call
  that read the clock value \<open>T\<close> makes the exchange and returns a token, the expiry it
  stores is \<open>T\<close> + 55 minutes (in milliseconds), whatever the body of the upstream answer
  holds. For every later call, at clock value \<open>T'\<close>, on the cache that call left: if it
  makes no exchange then \<open>T'\<close> is strictly before \<open>T\<close> + 55 minutes (and it returns the
  cached token and leaves the cache as it was); and if \<open>T'\<close> is at or after \<open>T\<close> + 55
  minutes then it makes an exchange.
\<close>

theorem expiry_math:
  "(getZohoAccessToken T probe exchange c = (Inr tok, c', calls) \<and> ExchangeCall \<in> set calls \<longrightarrow>
      tokenExpiryTime c' = Some (T + 55 * 60 * 1000) \<and>
      (\<forall>T' p x r c'' calls'. getZohoAccessToken T' p x c' = (r, c'', calls') \<longrightarrow>
         (ExchangeCall \<notin> set calls' \<longrightarrow> T' < T + 55 * 60 * 1000 \<and> r = Inr tok \<and> c'' = c') \<and>
         (T + 55 * 60 * 1000 \<le> T' \<longrightarrow> ExchangeCall \<in> set calls'))) \<and>
   (getZohoAccessToken_index T exchange ci = (Inr toki, ci', callsi) \<and>
      ExchangeCall \<in> set callsi \<longrightarrow>
      tokenExpiryTime ci' = Some (T + 55 * 60 * 1000) \<and>
      (\<forall>T' x r c'' calls'. getZohoAccessToken_index T' x ci' = (r, c'', calls') \<longrightarrow>
         (ExchangeCall \<notin> set calls' \<longrightarrow> T' < T + 55 * 60 * 1000 \<and> r = Inr toki \<and> c'' = ci') \<and>
         (T + 55 * 60 * 1000 \<le> T' \<longrightarrow> ExchangeCall \<in> set calls')))"
proof (intro conjI impI allI; (elim conjE)?)
  assume a: "getZohoAccessToken T probe exchange c = (Inr tok, c', calls)"
    "ExchangeCall \<in> set calls"
  note c' = server_exchange_success [OF a]
  show "tokenExpiryTime c' = Some (T + 55 * 60 * 1000)" by (simp add: c')
  fix T' p x r c'' calls'
  assume b: "getZohoAccessToken T' p x c' = (r, c'', calls')"
  note l = server_later_call [OF b [unfolded c']]
  { assume "ExchangeCall \<notin> set calls'"
    with l show "T' < T + 55 * 60 * 1000" "r = Inr tok" "c'' = c'" by (simp_all add: c') }
  { assume "T + 55 * 60 * 1000 \<le> T'"
    with l show "ExchangeCall \<in> set calls'" by simp }
next
  assume a: "getZohoAccessToken_index T exchange ci = (Inr toki, ci', callsi)"
    "ExchangeCall \<in> set callsi"
  note c' = index_exchange_success [OF a]
  show "tokenExpiryTime ci' = Some (T + 55 * 60 * 1000)" by (simp add: c')
  fix T' x r c'' calls'
  assume b: "getZohoAccessToken_index T' x ci' = (r, c'', calls')"
  note l = index_later_call [OF b [unfolded c']]
  { assume "ExchangeCall \<notin> set calls'"
    with l show "T' < T + 55 * 60 * 1000" "r = Inr toki" "c'' = ci'" by (simp_all add: c') }
  { assume "T + 55 * 60 * 1000 \<le> T'"
    with l show "ExchangeCall \<in> set calls'" by simp }
qed

text \<open>
  At clock value 1000 on the empty cache, with an upstream answer that announces a
  lifetime of its own: the expiry stored is 3301000, and a call at 3301000 exchanges again.
\<close>

theorem expiry_math_witness:
  "getZohoAccessToken 1000 (NoResponse ''unused'')
       (Responded 200 (JObj [(''access_token'', JStr ''t1''), (''expires_in'', JNum 3600)]))
       empty_cache =
     (Inr (JStr ''t1''), \<lparr>zohoAccessToken = JStr ''t1'', tokenExpiryTime = Some 3301000\<rparr>,
      [ExchangeCall]) \<and>
   getZohoAccessToken_index 1000
       (Responded 200 (JObj [(''access_token'', JStr ''t1''), (''expires_in'', JNum 3600)]))
       empty_cache =
     (Inr (JStr ''t1''), \<lparr>zohoAccessToken = JStr ''t1'', tokenExpiryTime = Some 3301000\<rparr>,
      [ExchangeCall]) \<and>
   tokenExpiryTime \<lparr>zohoAccessToken = JStr ''t1'', tokenExpiryTime = Some 3301000\<rparr>
     = Some (1000 + 55 * 60 * 1000) \<and>
   getZohoAccessToken 3301000 (Responded 200 JNull)
       (Responded 200 (JObj [(''access_token'', JStr ''t2'')]))
       \<lparr>zohoAccessToken = JStr ''t1'', tokenExpiryTime = Some 3301000\<rparr> =
     (Inr (JStr ''t2''), \<lparr>zohoAccessToken = JStr ''t2'', tokenExpiryTime = Some 6601000\<rparr>,
      [ExchangeCall])"
proof -
  have s: "getZohoAccessToken 1000 (NoResponse ''unused'')
       (Responded 200 (JObj [(''access_token'', JStr ''t1''), (''expires_in'', JNum 3600)]))
       empty_cache =
     (Inr (JStr ''t1''), \<lparr>zohoAccessToken = JStr ''t1'', tokenExpiryTime = Some 3301000\<rparr>,
      [ExchangeCall])"
    by code_simp
  have i: "getZohoAccessToken_index 1000
       (Responded 200 (JObj [(''access_token'', JStr ''t1''), (''expires_in'', JNum 3600)]))
       empty_cache =
     (Inr (JStr ''t1''), \<lparr>zohoAccessToken = JStr ''t1'', tokenExpiryTime = Some 3301000\<rparr>,
      [ExchangeCall])"
    by code_simp
  have l: "getZohoAccessToken 3301000 (Responded 200 JNull)
       (Responded 200 (JObj [(''access_token'', JStr ''t2'')]))
       \<lparr>zohoAccessToken = JStr ''t1'', tokenExpiryTime = Some 3301000\<rparr> =
     (Inr (JStr ''t2''), \<lparr>zohoAccessToken = JStr ''t2'', tokenExpiryTime = Some 6601000\<rparr>,
      [ExchangeCall])"
    by code_simp
  show ?thesis
    using s i l
      expiry_math [of 1000 "NoResponse ''unused''"
        "Responded 200 (JObj [(''access_token'', JStr ''t1''), (''expires_in'', JNum 3600)])"
        empty_cache "JStr ''t1''"
        "\<lparr>zohoAccessToken = JStr ''t1'', tokenExpiryTime = Some 3301000\<rparr>" "[ExchangeCall]"
        empty_cache "JStr ''t1''"
        "\<lparr>zohoAccessToken = JStr ''t1'', tokenExpiryTime = Some 3301000\<rparr>" "[ExchangeCall]"]
    by simp
qed

subsection \<open>The validation probe\<close>

text \<open>
  C5. Probe short-circuits refresh (server.js 136-168). When the cache holds a token
  that has not expired and the validation request is answered with status 200, the call
  makes the probe and no exchange, returns the cached token and leaves the cache as it was,
  whatever the token endpoint would have answered.
\<close>

theorem probe_success_short_circuits:
  assumes "cache_usable now c" and "probe = Responded 200 body"
  shows "getZohoAccessToken now probe exchange c =
           (Inr (zohoAccessToken c), c, [ProbeCall (zohoAccessToken c)])"
  using assms by (simp add: getZohoAccessToken_def validate_iff)

theorem probe_success_short_circuits_witness:
  "cache_usable 2000 \<lparr>zohoAccessToken = JStr ''t1'', tokenExpiryTime = Some 3301000\<rparr> \<and>
   getZohoAccessToken 2000 (Responded 200 (JObj [])) (NoResponse ''socket hang up'')
       \<lparr>zohoAccessToken = JStr ''t1'', tokenExpiryTime = Some 3301000\<rparr> =
     (Inr (JStr ''t1''), \<lparr>zohoAccessToken = JStr ''t1'', tokenExpiryTime = Some 3301000\<rparr>,
      [ProbeCall (JStr ''t1'')])"
proof -
  have h: "cache_usable 2000 \<lparr>zohoAccessToken = JStr ''t1'', tokenExpiryTime = Some 3301000\<rparr>"
    by (simp add: cache_usable_def)
  show ?thesis
    using h probe_success_short_circuits [OF h refl, of "JObj []" "NoResponse ''socket hang up''"]
    by simp
qed

text \<open>
  C6. Probe failure forces refresh (server.js 158-195). When the cache holds a token
  that has not expired and the probe fails (no answer, or any status other than 200), the
  call makes the probe and then exactly one exchange; what it returns and the cache it
  leaves are those of a refresh on the empty cache, so nothing of the old credential
  survives; and when the exchange yields a token, the call returns that token and caches it
  with the expiry \<open>now\<close> + 55 minutes.
\<close>

theorem probe_failure_forces_refresh:
  assumes "cache_usable now c" and "\<not> validateZohoToken probe"
  shows "getZohoAccessToken now probe exchange c =
           (fst (refresh now exchange empty_cache), snd (refresh now exchange empty_cache),
            [ProbeCall (zohoAccessToken c), ExchangeCall]) \<and>
         (\<forall>tok. exchange_try exchange = Inr tok \<longrightarrow>
            getZohoAccessToken now probe exchange c =
              (Inr tok, \<lparr>zohoAccessToken = tok, tokenExpiryTime = Some (now + 55 * 60 * 1000)\<rparr>,
               [ProbeCall (zohoAccessToken c), ExchangeCall]))"
  using assms
  by (cases "exchange_try exchange")
     (simp_all add: getZohoAccessToken_def refresh_cases empty_cache_def)

theorem probe_failure_forces_refresh_witness:
  "cache_usable 2000 \<lparr>zohoAccessToken = JStr ''t1'', tokenExpiryTime = Some 3301000\<rparr> \<and>
   \<not> validateZohoToken (Responded 401 JNull) \<and>
   getZohoAccessToken 2000 (Responded 401 JNull)
       (Responded 200 (JObj [(''access_token'', JStr ''t2'')]))
       \<lparr>zohoAccessToken = JStr ''t1'', tokenExpiryTime = Some 3301000\<rparr> =
     (Inr (JStr ''t2''), \<lparr>zohoAccessToken = JStr ''t2'', tokenExpiryTime = Some 3302000\<rparr>,
      [ProbeCall (JStr ''t1''), ExchangeCall])"
proof -
  have h: "cache_usable 2000 \<lparr>zohoAccessToken = JStr ''t1'', tokenExpiryTime = Some 3301000\<rparr>"
    by (simp add: cache_usable_def)
  have p: "\<not> validateZohoToken (Responded 401 JNull)"
    by (simp add: validate_iff)
  have x: "exchange_try (Responded 200 (JObj [(''access_token'', JStr ''t2'')])) = Inr (JStr ''t2'')"
    by code_simp
  show ?thesis
    using h p probe_failure_forces_refresh [OF h p, THEN conjunct2, rule_format, OF x]
    by simp
qed

subsection \<open>Failure of the exchange\<close>

text \<open>
  In server.js every failed exchange (no answer, a status outside 200-299, a body
  without a truthy \<open>access_token\<close>) empties the cache and makes the call fail with
  what the \<open>catch\<close> block throws; no token is returned.
\<close>

lemma exchange_failure_clears:
  assumes "getZohoAccessToken now probe exchange c = (r, c', calls)"
    and "ExchangeCall \<in> set calls" and "exchange_try exchange = Inl error"
  shows "c' = empty_cache \<and> r = Inl (exchange_catch error)"
  using assms by (auto simp: getZohoAccessToken_def refresh_cases split: if_splits)

text \<open>
  What the \<open>catch\<close> block throws is the wrapped message of the failure, unless the
  failure is an error answer whose body is \<open>null\<close>.
\<close>

lemma exchange_catch_wraps:
  assumes "\<forall>status. response_of error \<noteq> Some (status, JNull) \<and>
                    response_of error \<noteq> Some (status, JUndefined)"
  shows "exchange_catch error = JsError (''Failed to get Zoho access token: '' @ message_of error)"
proof (cases "response_of error")
  case None
  then show ?thesis by (simp add: exchange_catch_def)
next
  case (Some sd)
  obtain status data where sd: "sd = (status, data)" by (cases sd)
  with Some assms have "data \<noteq> JNull" "data \<noteq> JUndefined" by auto
  then have "\<exists>v. get_prop data ''error'' = Inr v"
    by (cases data) (auto split: option.splits)
  with Some sd show ?thesis by (auto simp: exchange_catch_def)
qed

text \<open>
  C4. Exchange failure handling (server.js 187-214). The claim: a failed exchange
  empties the cache and fails the call with an error that carries the upstream error
  information. The cache is emptied and the call fails on every failed exchange
  (\<open>exchange_failure_clears\<close>), but the error is not always the wrapped upstream error:
  when the token endpoint answers 400 with the JSON body \<open>null\<close>, the \<open>catch\<close> block
  reads \<open>error.response.data.error\<close> for its log before it throws, and that read throws
  a TypeError, which is what the caller receives in place of
  "Failed to get Zoho access token: Request failed with status code 400".
\<close>

theorem exchange_failure_null_body:
  "getZohoAccessToken 4000000 (NoResponse ''unused'') (Responded 400 JNull)
       \<lparr>zohoAccessToken = JStr ''t1'', tokenExpiryTime = Some 3301000\<rparr> =
     (Inl (JsTypeError (cannot_read ''null'' ''error'')), empty_cache, [ExchangeCall]) \<and>
   exchange_try (Responded 400 JNull) =
     Inl (AxiosError ''Request failed with status code 400'' (Some (400, JNull)))"
  by code_simp

subsection \<open>The token and its expiry as a pair\<close>

text \<open>server.js leaves the two variables both set or both \<open>null\<close>, from any cache.\<close>

lemma server_pair_formed: "pair_formed (fst (snd (getZohoAccessToken now probe exchange c)))"
  by (cases "exchange_try exchange")
     (auto simp: getZohoAccessToken_def refresh_cases empty_cache_def pair_formed_def
        cache_usable_def Let_def dest: exchange_try_truthy split: option.splits)

text \<open>
  C7. Token and expiry are both set or both absent, also after an exchange whose answer
  lacks \<open>access_token\<close>. index.js 64-67 assigns \<open>response.data.access_token\<close>
  without the check that server.js 187 makes: when the token endpoint answers 200 with
  \<open>{"error": "invalid_code"}\<close>, the call returns \<open>undefined\<close> and leaves the token
  \<open>undefined\<close> beside the expiry 3301000.
\<close>

theorem index_torn_pair:
  "getZohoAccessToken_index 1000 (Responded 200 (JObj [(''error'', JStr ''invalid_code'')]))
       empty_cache =
     (Inr JUndefined, \<lparr>zohoAccessToken = JUndefined, tokenExpiryTime = Some 3301000\<rparr>,
      [ExchangeCall]) \<and>
   \<not> pair_formed \<lparr>zohoAccessToken = JUndefined, tokenExpiryTime = Some 3301000\<rparr>"
  by code_simp


section \<open>Properties of the fan-out\<close>

lemma count_results_acc:
  "count_results rs (s, f) =
     (s + length (filter webhook_succeeded rs),
      f + length (filter (\<lambda>r. \<not> webhook_succeeded r) rs))"
  by (induction rs arbitrary: s f) auto

text \<open>The results are one per target, each the settled request of its own position.\<close>

lemma results_by_position:
  "allSettled (webhook_requests vs urls net) =
     map (\<lambda>i. settle vs (net i (urls ! i))) [0..<length urls]"
  by (rule nth_equalityI)
     (simp_all add: allSettled_def webhook_requests_def settle_def nth_enumerate_eq)

lemma vendor_forEach_acc:
  "vendor_forEach ps w =
     \<lparr>successCount = successCount w + length (filter (\<lambda>p. webhook_succeeded (snd p)) ps),
      failureCount = failureCount w + length (filter (\<lambda>p. \<not> webhook_succeeded (snd p)) ps),
      details = details w @ map (\<lambda>p. vendor_detail (fst p) (snd p)) ps\<rparr>"
  by (induction ps w rule: vendor_forEach.induct)
     (auto simp: webhook_succeeded_def vendor_failed_def)

lemma filter_split_length:
  "length (filter P xs) + length (filter (\<lambda>x. \<not> P x) xs) = length xs"
  by (induction xs) auto

lemma vendor_webhooks_eq:
  "vendor_webhooks urls net =
     vendor_forEach (zip urls (allSettled (webhook_requests validateStatus_webhook urls net)))
       \<lparr>successCount = 0, failureCount = 0, details = []\<rparr>"
  by (cases urls) (simp_all add: vendor_webhooks_def allSettled_def webhook_requests_def)

lemma vendor_webhooks_counts:
  "successCount (vendor_webhooks urls net) + failureCount (vendor_webhooks urls net) = length urls"
proof -
  let ?ps = "zip urls (allSettled (webhook_requests validateStatus_webhook urls net))"
  have "length ?ps = length urls" by (simp add: results_by_position)
  then show ?thesis
    using filter_split_length [of "\<lambda>p. webhook_succeeded (snd p)" ?ps]
    by (simp add: vendor_webhooks_eq vendor_forEach_acc)
qed

lemma vendor_webhooks_details:
  "details (vendor_webhooks urls net) =
     map (\<lambda>i. vendor_detail (urls ! i) (settle validateStatus_webhook (net i (urls ! i))))
       [0..<length urls]"
  by (rule nth_equalityI)
     (simp_all add: vendor_webhooks_eq vendor_forEach_acc results_by_position)

lemma claims_route_counts:
  assumes "truthy supplierName" and "webhookUrls \<noteq> []"
  shows "claims_route supplierName webhookUrls net =
     \<lparr>http_status = 200, success = True, message = ''Claim processed'',
      webhookSuccess = Some (length (filter
        (\<lambda>i. webhook_succeeded (settle validateStatus_webhook (net i (webhookUrls ! i))))
        [0..<length webhookUrls])),
      webhookFailed = Some (length (filter
        (\<lambda>i. \<not> webhook_succeeded (settle validateStatus_webhook (net i (webhookUrls ! i))))
        [0..<length webhookUrls]))\<rparr>"
  using assms
  by (simp add: claims_route_def count_results_acc results_by_position filter_map comp_def)

lemma claims_route_v1_counts:
  assumes "truthy supplierName"
  shows "claims_route_v1 supplierName webhookUrls net =
     \<lparr>http_status = 200, success = True, message = ''Claim and file processed'',
      webhookSuccess = Some (length (filter
        (\<lambda>i. is_fulfilled (settle validateStatus_default (net i (webhookUrls ! i))))
        [0..<length webhookUrls])),
      webhookFailed = None\<rparr>"
  using assms
  by (simp add: claims_route_v1_def results_by_position filter_map comp_def)

lemma webhook_succeeded_iff:
  "webhook_succeeded (settle validateStatus_webhook reply) =
     (\<exists>status body. reply = Responded status body \<and> 200 \<le> status \<and> status < 400)"
  by (cases reply)
     (auto simp: webhook_succeeded_def settle_def axios_request_def validateStatus_webhook_def)

lemma is_fulfilled_default_iff:
  "is_fulfilled (settle validateStatus_default reply) =
     (\<exists>status body. reply = Responded status body \<and> 200 \<le> status \<and> status < 300)"
  by (cases reply)
     (auto simp: is_fulfilled_def settle_def axios_request_def validateStatus_default_def)

lemma zip_by_position:
  "zip urls (map g [0..<length urls]) = map (\<lambda>i. (urls ! i, g i)) [0..<length urls]"
  by (rule nth_equalityI) simp_all

text \<open>The whole report of the vendor fan-out of server.js, target by target.\<close>

lemma vendor_webhooks_report:
  "vendor_webhooks urls net =
     \<lparr>successCount = length (filter
        (\<lambda>i. webhook_succeeded (settle validateStatus_webhook (net i (urls ! i))))
        [0..<length urls]),
      failureCount = length (filter
        (\<lambda>i. \<not> webhook_succeeded (settle validateStatus_webhook (net i (urls ! i))))
        [0..<length urls]),
      details = map
        (\<lambda>i. vendor_detail (urls ! i) (settle validateStatus_webhook (net i (urls ! i))))
        [0..<length urls]\<rparr>"
  by (simp add: vendor_webhooks_eq vendor_forEach_acc results_by_position zip_by_position
      filter_map comp_def)

lemma vendor_webhooks_index_counts:
  assumes "webhookUrls \<noteq> []"
  shows "vendor_webhooks_index webhookUrls net =
     \<lparr>http_status = 200, success = True, message = ''Vendor processed successfully'',
      webhookSuccess = Some (length (filter
        (\<lambda>i. webhook_succeeded (settle validateStatus_webhook (net i (webhookUrls ! i))))
        [0..<length webhookUrls])),
      webhookFailed = Some (length (filter
        (\<lambda>i. \<not> webhook_succeeded (settle validateStatus_webhook (net i (webhookUrls ! i))))
        [0..<length webhookUrls]))\<rparr>"
  using assms
  by (simp add: vendor_webhooks_index_def count_results_acc results_by_position filter_map
      comp_def)

lemma vendor_detail_by_status:
  "vendor_detail url (settle validateStatus_webhook (Responded status body)) =
     (if 200 \<le> status \<and> status < 400 then DetailSuccess url status
      else if 400 \<le> status \<and> status < 500 then DetailFailed url ''Unknown error''
      else DetailFailed url (''Request failed with status code '' @ toString_nat status))"
  by (auto simp: settle_def axios_request_def validateStatus_webhook_def reason_message_def)

lemma vendor_detail_no_response:
  "vendor_detail url (settle validateStatus_webhook (NoResponse msg)) =
     DetailFailed url (if msg \<noteq> [] then msg else ''Unknown error'')"
  by (simp add: settle_def axios_request_def reason_message_def)

subsection \<open>Acceptance policy\<close>

text \<open>
  The claim C2 as stated, "a target is counted as a success if and only if its response
  status is strictly less than 400", fails at both kinds of call site. Under
  \<open>validateStatus: status >= 200 && status < 500\<close> an answer with a status below 200
  (here 99) rejects the request and is counted as a failure. In the first variant of /api/claims
  (server.js 46-93), which sets no \<open>validateStatus\<close>, an answer with status 304 rejects the
  request and is not counted as a success.
\<close>

theorem acceptance_policy_counterexample:
  "(99::nat) < 400 \<and>
   \<not> webhook_succeeded (settle validateStatus_webhook (Responded 99 JNull)) \<and>
   claims_route (JStr ''ACME'') [''http://hook''] (net_of [Responded 99 JNull]) =
     \<lparr>http_status = 200, success = True, message = ''Claim processed'',
      webhookSuccess = Some 0, webhookFailed = Some 1\<rparr> \<and>
   (304::nat) < 400 \<and>
   claims_route_v1 (JStr ''ACME'') [''http://hook''] (net_of [Responded 304 JNull]) =
     \<lparr>http_status = 200, success = True, message = ''Claim and file processed'',
      webhookSuccess = Some 0, webhookFailed = None\<rparr>"
  by code_simp

text \<open>
  C2, amended. In the fan-outs that pass \<open>validateStatus: status >= 200 && status < 500\<close>
  (server.js /api/claims 396-440 and /api/vendors 963-1004, index.js /api/claims 132-178
  and /api/vendors 433-481, part_000) a target is counted as a success if and only if it
  answered with a status from 200 up to, not including, 400. The success count each of
  these routes reports is the number of such targets, and its failure count the number of
  all other targets. An answer with a status in [400,500) fulfils the request (nothing is
  thrown), fails the test of the \<open>forEach\<close> and is recorded as a failure entry of its own
  (in the details of server.js /api/vendors with the error "Unknown error"). An answer with
  status 500 or more rejects the request and is counted as a failure, as is a request
  without an answer; the route reports all the same. In the first variant of /api/claims
  (server.js 46-93, no \<open>validateStatus\<close>) a target is counted as a success if and only if
  it answered with a status from 200 up to, not including, 300; every other outcome rejects
  the request, which \<open>allSettled\<close> holds as a result, and no failure count is reported.
\<close>

theorem acceptance_policy:
  "webhook_succeeded (settle validateStatus_webhook reply) =
     (\<exists>status body. reply = Responded status body \<and> 200 \<le> status \<and> status < 400) \<and>
   (truthy supplierName \<and> webhookUrls \<noteq> [] \<longrightarrow>
      webhookSuccess (claims_route supplierName webhookUrls net) =
        Some (length (filter
          (\<lambda>i. webhook_succeeded (settle validateStatus_webhook (net i (webhookUrls ! i))))
          [0..<length webhookUrls]))) \<and>
   (400 \<le> status \<and> status < 500 \<longrightarrow>
      settle validateStatus_webhook (Responded status body) = Fulfilled (status, body) \<and>
      \<not> webhook_succeeded (settle validateStatus_webhook (Responded status body)) \<and>
      vendor_detail url (settle validateStatus_webhook (Responded status body)) =
        DetailFailed url ''Unknown error'') \<and>
   (500 \<le> status \<longrightarrow>
      settle validateStatus_webhook (Responded status body) =
        Rejected (AxiosError (''Request failed with status code '' @ toString_nat status)
                    (Some (status, body))) \<and>
      \<not> webhook_succeeded (settle validateStatus_webhook (Responded status body))) \<and>
   is_fulfilled (settle validateStatus_default reply) =
     (\<exists>status body. reply = Responded status body \<and> 200 \<le> status \<and> status < 300) \<and>
   (truthy supplierName \<longrightarrow>
      webhookSuccess (claims_route_v1 supplierName webhookUrls net) =
        Some (length (filter
          (\<lambda>i. is_fulfilled (settle validateStatus_default (net i (webhookUrls ! i))))
          [0..<length webhookUrls]))) \<and>
   (truthy supplierName \<and> webhookUrls \<noteq> [] \<longrightarrow>
      claims_route supplierName webhookUrls net =
        \<lparr>http_status = 200, success = True, message = ''Claim processed'',
         webhookSuccess = Some (length (filter
           (\<lambda>i. webhook_succeeded (settle validateStatus_webhook (net i (webhookUrls ! i))))
           [0..<length webhookUrls])),
         webhookFailed = Some (length (filter
           (\<lambda>i. \<not> webhook_succeeded (settle validateStatus_webhook (net i (webhookUrls ! i))))
           [0..<length webhookUrls]))\<rparr>) \<and>
   (webhookUrls \<noteq> [] \<longrightarrow>
      vendor_webhooks_index webhookUrls net =
        \<lparr>http_status = 200, success = True, message = ''Vendor processed successfully'',
         webhookSuccess = Some (length (filter
           (\<lambda>i. webhook_succeeded (settle validateStatus_webhook (net i (webhookUrls ! i))))
           [0..<length webhookUrls])),
         webhookFailed = Some (length (filter
           (\<lambda>i. \<not> webhook_succeeded (settle validateStatus_webhook (net i (webhookUrls ! i))))
           [0..<length webhookUrls]))\<rparr>) \<and>
   vendor_webhooks webhookUrls net =
     \<lparr>successCount = length (filter
        (\<lambda>i. webhook_succeeded (settle validateStatus_webhook (net i (webhookUrls ! i))))
        [0..<length webhookUrls]),
      failureCount = length (filter
        (\<lambda>i. \<not> webhook_succeeded (settle validateStatus_webhook (net i (webhookUrls ! i))))
        [0..<length webhookUrls]),
      details = map
        (\<lambda>i. vendor_detail (webhookUrls ! i)
               (settle validateStatus_webhook (net i (webhookUrls ! i))))
        [0..<length webhookUrls]\<rparr> \<and>
   vendor_detail url (settle validateStatus_webhook (Responded status body)) =
     (if 200 \<le> status \<and> status < 400 then DetailSuccess url status
      else if 400 \<le> status \<and> status < 500 then DetailFailed url ''Unknown error''
      else DetailFailed url (''Request failed with status code '' @ toString_nat status)) \<and>
   vendor_detail url (settle validateStatus_webhook (NoResponse msg)) =
     DetailFailed url (if msg \<noteq> [] then msg else ''Unknown error'') \<and>
   (truthy supplierName \<longrightarrow>
      claims_route_v1 supplierName webhookUrls net =
        \<lparr>http_status = 200, success = True, message = ''Claim and file processed'',
         webhookSuccess = Some (length (filter
           (\<lambda>i. is_fulfilled (settle validateStatus_default (net i (webhookUrls ! i))))
           [0..<length webhookUrls])),
         webhookFailed = None\<rparr>)"
proof (intro conjI impI; (elim conjE)?)
  show "vendor_webhooks webhookUrls net =
     \<lparr>successCount = length (filter
        (\<lambda>i. webhook_succeeded (settle validateStatus_webhook (net i (webhookUrls ! i))))
        [0..<length webhookUrls]),
      failureCount = length (filter
        (\<lambda>i. \<not> webhook_succeeded (settle validateStatus_webhook (net i (webhookUrls ! i))))
        [0..<length webhookUrls]),
      details = map
        (\<lambda>i. vendor_detail (webhookUrls ! i)
               (settle validateStatus_webhook (net i (webhookUrls ! i))))
        [0..<length webhookUrls]\<rparr>"
    by (rule vendor_webhooks_report)
  show "vendor_detail url (settle validateStatus_webhook (Responded status body)) =
     (if 200 \<le> status \<and> status < 400 then DetailSuccess url status
      else if 400 \<le> status \<and> status < 500 then DetailFailed url ''Unknown error''
      else DetailFailed url (''Request failed with status code '' @ toString_nat status))"
    by (rule vendor_detail_by_status)
  show "vendor_detail url (settle validateStatus_webhook (NoResponse msg)) =
     DetailFailed url (if msg \<noteq> [] then msg else ''Unknown error'')"
    by (rule vendor_detail_no_response)
next
  assume "webhookUrls \<noteq> []"
  then show "vendor_webhooks_index webhookUrls net =
        \<lparr>http_status = 200, success = True, message = ''Vendor processed successfully'',
         webhookSuccess = Some (length (filter
           (\<lambda>i. webhook_succeeded (settle validateStatus_webhook (net i (webhookUrls ! i))))
           [0..<length webhookUrls])),
         webhookFailed = Some (length (filter
           (\<lambda>i. \<not> webhook_succeeded (settle validateStatus_webhook (net i (webhookUrls ! i))))
           [0..<length webhookUrls]))\<rparr>"
    by (rule vendor_webhooks_index_counts)
next
  assume "truthy supplierName" "webhookUrls \<noteq> []"
  then show "claims_route supplierName webhookUrls net =
        \<lparr>http_status = 200, success = True, message = ''Claim processed'',
         webhookSuccess = Some (length (filter
           (\<lambda>i. webhook_succeeded (settle validateStatus_webhook (net i (webhookUrls ! i))))
           [0..<length webhookUrls])),
         webhookFailed = Some (length (filter
           (\<lambda>i. \<not> webhook_succeeded (settle validateStatus_webhook (net i (webhookUrls ! i))))
           [0..<length webhookUrls]))\<rparr>"
    by (rule claims_route_counts)
next
  assume "truthy supplierName"
  then show "claims_route_v1 supplierName webhookUrls net =
        \<lparr>http_status = 200, success = True, message = ''Claim and file processed'',
         webhookSuccess = Some (length (filter
           (\<lambda>i. is_fulfilled (settle validateStatus_default (net i (webhookUrls ! i))))
           [0..<length webhookUrls])),
         webhookFailed = None\<rparr>"
    by (rule claims_route_v1_counts)
next
  show "webhook_succeeded (settle validateStatus_webhook reply) =
     (\<exists>status body. reply = Responded status body \<and> 200 \<le> status \<and> status < 400)"
    by (rule webhook_succeeded_iff)
  show "is_fulfilled (settle validateStatus_default reply) =
     (\<exists>status body. reply = Responded status body \<and> 200 \<le> status \<and> status < 300)"
    by (rule is_fulfilled_default_iff)
next
  assume "truthy supplierName" "webhookUrls \<noteq> []"
  then show "webhookSuccess (claims_route supplierName webhookUrls net) =
        Some (length (filter
          (\<lambda>i. webhook_succeeded (settle validateStatus_webhook (net i (webhookUrls ! i))))
          [0..<length webhookUrls]))"
    by (simp add: claims_route_counts)
next
  assume "truthy supplierName"
  then show "webhookSuccess (claims_route_v1 supplierName webhookUrls net) =
        Some (length (filter
          (\<lambda>i. is_fulfilled (settle validateStatus_default (net i (webhookUrls ! i))))
          [0..<length webhookUrls]))"
    by (simp add: claims_route_v1_counts)
next
  assume s: "400 \<le> status" "status < 500"
  then show f: "settle validateStatus_webhook (Responded status body) = Fulfilled (status, body)"
    by (simp add: settle_def axios_request_def validateStatus_webhook_def)
  from s show "\<not> webhook_succeeded (settle validateStatus_webhook (Responded status body))"
    by (simp add: webhook_succeeded_iff)
  from s show "vendor_detail url (settle validateStatus_webhook (Responded status body)) =
        DetailFailed url ''Unknown error''"
    by (simp add: f reason_message_def)
next
  assume s: "500 \<le> status"
  then show "settle validateStatus_webhook (Responded status body) =
        Rejected (AxiosError (''Request failed with status code '' @ toString_nat status)
                    (Some (status, body)))"
    by (simp add: settle_def axios_request_def validateStatus_webhook_def)
  from s show "\<not> webhook_succeeded (settle validateStatus_webhook (Responded status body))"
    by (simp add: webhook_succeeded_iff)
qed

text \<open>
  One dispatch to three targets that answer 404, 500 and 200: the 404 is fulfilled and
  recorded as a failure entry, the 500 is rejected and recorded with the message of axios,
  and the claims route and both vendor fan-outs count one success and two failures; the
  first variant of the claims route counts one success and reports no failure count.
\<close>

theorem acceptance_policy_witness:
  "truthy (JStr ''ACME'') \<and> [''http://a'', ''http://b'', ''http://c''] \<noteq> [] \<and>
   (400::nat) \<le> 404 \<and> (404::nat) < 500 \<and> (500::nat) \<le> 500 \<and>
   settle validateStatus_webhook (Responded 404 JNull) = Fulfilled (404, JNull) \<and>
   vendor_detail ''http://a'' (settle validateStatus_webhook (Responded 404 JNull)) =
     DetailFailed ''http://a'' ''Unknown error'' \<and>
   \<not> webhook_succeeded (settle validateStatus_webhook (Responded 500 JNull)) \<and>
   webhookSuccess (claims_route (JStr ''ACME'') [''http://a'', ''http://b'', ''http://c'']
       (net_of [Responded 404 JNull, Responded 500 JNull, Responded 200 JNull])) = Some 1 \<and>
   webhookSuccess (claims_route_v1 (JStr ''ACME'') [''http://a'', ''http://b'', ''http://c'']
       (net_of [Responded 404 JNull, Responded 500 JNull, Responded 200 JNull])) = Some 1 \<and>
   claims_route (JStr ''ACME'') [''http://a'', ''http://b'', ''http://c'']
       (net_of [Responded 404 JNull, Responded 500 JNull, Responded 200 JNull]) =
     \<lparr>http_status = 200, success = True, message = ''Claim processed'',
      webhookSuccess = Some 1, webhookFailed = Some 2\<rparr> \<and>
   vendor_webhooks_index [''http://a'', ''http://b'', ''http://c'']
       (net_of [Responded 404 JNull, Responded 500 JNull, Responded 200 JNull]) =
     \<lparr>http_status = 200, success = True, message = ''Vendor processed successfully'',
      webhookSuccess = Some 1, webhookFailed = Some 2\<rparr> \<and>
   vendor_webhooks [''http://a'', ''http://b'', ''http://c'']
       (net_of [Responded 404 JNull, Responded 500 JNull, Responded 200 JNull]) =
     \<lparr>successCount = 1, failureCount = 2,
      details = [DetailFailed ''http://a'' ''Unknown error'',
                 DetailFailed ''http://b'' ''Request failed with status code 500'',
                 DetailSuccess ''http://c'' 200]\<rparr> \<and>
   claims_route_v1 (JStr ''ACME'') [''http://a'', ''http://b'', ''http://c'']
       (net_of [Responded 404 JNull, Responded 500 JNull, Responded 200 JNull]) =
     \<lparr>http_status = 200, success = True, message = ''Claim and file processed'',
      webhookSuccess = Some 1, webhookFailed = None\<rparr>"
proof -
  have e: "webhookSuccess (claims_route (JStr ''ACME'') [''http://a'', ''http://b'', ''http://c'']
       (net_of [Responded 404 JNull, Responded 500 JNull, Responded 200 JNull])) = Some 1"
    "webhookSuccess (claims_route_v1 (JStr ''ACME'') [''http://a'', ''http://b'', ''http://c'']
       (net_of [Responded 404 JNull, Responded 500 JNull, Responded 200 JNull])) = Some 1"
    "claims_route (JStr ''ACME'') [''http://a'', ''http://b'', ''http://c'']
       (net_of [Responded 404 JNull, Responded 500 JNull, Responded 200 JNull]) =
     \<lparr>http_status = 200, success = True, message = ''Claim processed'',
      webhookSuccess = Some 1, webhookFailed = Some 2\<rparr>"
    "vendor_webhooks_index [''http://a'', ''http://b'', ''http://c'']
       (net_of [Responded 404 JNull, Responded 500 JNull, Responded 200 JNull]) =
     \<lparr>http_status = 200, success = True, message = ''Vendor processed successfully'',
      webhookSuccess = Some 1, webhookFailed = Some 2\<rparr>"
    "vendor_webhooks [''http://a'', ''http://b'', ''http://c'']
       (net_of [Responded 404 JNull, Responded 500 JNull, Responded 200 JNull]) =
     \<lparr>successCount = 1, failureCount = 2,
      details = [DetailFailed ''http://a'' ''Unknown error'',
                 DetailFailed ''http://b'' ''Request failed with status code 500'',
                 DetailSuccess ''http://c'' 200]\<rparr>"
    "claims_route_v1 (JStr ''ACME'') [''http://a'', ''http://b'', ''http://c'']
       (net_of [Responded 404 JNull, Responded 500 JNull, Responded 200 JNull]) =
     \<lparr>http_status = 200, success = True, message = ''Claim and file processed'',
      webhookSuccess = Some 1, webhookFailed = None\<rparr>"
    by code_simp+
  have h404: "(400::nat) \<le> 404 \<and> (404::nat) < 500" and h500: "(500::nat) \<le> 500"
    by simp_all
  note t404 = acceptance_policy [of "Responded 404 JNull" "JStr ''ACME''"
        "[''http://a'', ''http://b'', ''http://c'']"
        "net_of [Responded 404 JNull, Responded 500 JNull, Responded 200 JNull]"
        404 JNull "''http://a''", THEN conjunct2, THEN conjunct2, THEN conjunct1, THEN mp, OF h404]
  note t500 = acceptance_policy [of "Responded 500 JNull" "JStr ''ACME''"
        "[''http://a'', ''http://b'', ''http://c'']"
        "net_of [Responded 404 JNull, Responded 500 JNull, Responded 200 JNull]"
        500 JNull "''http://b''", THEN conjunct2, THEN conjunct2, THEN conjunct2, THEN conjunct1,
        THEN mp, OF h500, THEN conjunct2]
  from t404 have a: "settle validateStatus_webhook (Responded 404 JNull) = Fulfilled (404, JNull)"
    and b: "vendor_detail ''http://a'' (settle validateStatus_webhook (Responded 404 JNull)) =
        DetailFailed ''http://a'' ''Unknown error''"
    by blast+
  from e a b t500 show ?thesis
    by (intro conjI) simp_all
qed

subsection \<open>Completion and isolation\<close>

text \<open>
  C3. Fan-out completion and isolation (server.js 407-433 and 963-1004, index.js
  143-171). The results the route counts are one per target, so the dispatch reports only
  after every target's outcome is in: the success and failure counts add up to the number
  of targets, and the success count is the number of targets whose own request succeeded.
  In the vendor fan-out the detail list has one entry per target, in the order of the
  targets, and the entry at each position is a function of that target's own outcome:
  changing what the network does with the other targets leaves it as it is.
\<close>

theorem fanout_complete_isolated:
  "(truthy supplierName \<and> webhookUrls \<noteq> [] \<longrightarrow>
      (\<exists>s f. webhookSuccess (claims_route supplierName webhookUrls net) = Some s \<and>
              webhookFailed (claims_route supplierName webhookUrls net) = Some f \<and>
              s + f = length webhookUrls \<and>
              s = length (filter
                    (\<lambda>i. webhook_succeeded (settle validateStatus_webhook (net i (webhookUrls ! i))))
                    [0..<length webhookUrls]))) \<and>
   successCount (vendor_webhooks webhookUrls net) + failureCount (vendor_webhooks webhookUrls net)
     = length webhookUrls \<and>
   length (details (vendor_webhooks webhookUrls net)) = length webhookUrls \<and>
   (\<forall>i < length webhookUrls.
      details (vendor_webhooks webhookUrls net) ! i =
        vendor_detail (webhookUrls ! i) (settle validateStatus_webhook (net i (webhookUrls ! i))) \<and>
      (net' i (webhookUrls ! i) = net i (webhookUrls ! i) \<longrightarrow>
         details (vendor_webhooks webhookUrls net') ! i =
           details (vendor_webhooks webhookUrls net) ! i))"
proof (intro conjI impI allI)
  assume a: "truthy supplierName \<and> webhookUrls \<noteq> []"
  let ?ok = "\<lambda>i. webhook_succeeded (settle validateStatus_webhook (net i (webhookUrls ! i)))"
  have "length (filter ?ok [0..<length webhookUrls]) +
        length (filter (\<lambda>i. \<not> ?ok i) [0..<length webhookUrls]) = length webhookUrls"
    using filter_split_length [of ?ok "[0..<length webhookUrls]"] by simp
  with a show "\<exists>s f. webhookSuccess (claims_route supplierName webhookUrls net) = Some s \<and>
              webhookFailed (claims_route supplierName webhookUrls net) = Some f \<and>
              s + f = length webhookUrls \<and>
              s = length (filter ?ok [0..<length webhookUrls])"
    by (simp add: claims_route_counts)
next
  show "successCount (vendor_webhooks webhookUrls net) +
        failureCount (vendor_webhooks webhookUrls net) = length webhookUrls"
    by (rule vendor_webhooks_counts)
next
  show "length (details (vendor_webhooks webhookUrls net)) = length webhookUrls"
    by (simp add: vendor_webhooks_details)
next
  fix i assume "i < length webhookUrls"
  then show "details (vendor_webhooks webhookUrls net) ! i =
        vendor_detail (webhookUrls ! i) (settle validateStatus_webhook (net i (webhookUrls ! i)))"
    by (simp add: vendor_webhooks_details)
next
  fix i assume "i < length webhookUrls" "net' i (webhookUrls ! i) = net i (webhookUrls ! i)"
  then show "details (vendor_webhooks webhookUrls net') ! i =
        details (vendor_webhooks webhookUrls net) ! i"
    by (simp add: vendor_webhooks_details)
qed

text \<open>
  Three targets, the second of which times out while the others answer 200: two
  successes, one failure, and the second entry is the timeout; it stays the timeout when
  the third target answers 500 instead.
\<close>

theorem fanout_complete_isolated_witness:
  "truthy (JStr ''ACME'') \<and> [''http://a'', ''http://b'', ''http://c''] \<noteq> [] \<and>
   (1::nat) < length [''http://a'', ''http://b'', ''http://c''] \<and>
   vendor_webhooks [''http://a'', ''http://b'', ''http://c'']
       (net_of [Responded 200 JNull, NoResponse ''timeout of 15000ms exceeded'', Responded 200 JNull]) =
     \<lparr>successCount = 2, failureCount = 1,
      details = [DetailSuccess ''http://a'' 200,
                 DetailFailed ''http://b'' ''timeout of 15000ms exceeded'',
                 DetailSuccess ''http://c'' 200]\<rparr> \<and>
   details (vendor_webhooks [''http://a'', ''http://b'', ''http://c'']
       (net_of [Responded 200 JNull, NoResponse ''timeout of 15000ms exceeded'', Responded 500 JNull])) ! 1 =
     DetailFailed ''http://b'' ''timeout of 15000ms exceeded'' \<and>
   claims_route (JStr ''ACME'') [''http://a'', ''http://b'', ''http://c'']
       (net_of [Responded 200 JNull, NoResponse ''timeout of 15000ms exceeded'', Responded 200 JNull]) =
     \<lparr>http_status = 200, success = True, message = ''Claim processed'',
      webhookSuccess = Some 2, webhookFailed = Some 1\<rparr>"
proof -
  have e: "vendor_webhooks [''http://a'', ''http://b'', ''http://c'']
       (net_of [Responded 200 JNull, NoResponse ''timeout of 15000ms exceeded'', Responded 200 JNull]) =
     \<lparr>successCount = 2, failureCount = 1,
      details = [DetailSuccess ''http://a'' 200,
                 DetailFailed ''http://b'' ''timeout of 15000ms exceeded'',
                 DetailSuccess ''http://c'' 200]\<rparr>"
    "claims_route (JStr ''ACME'') [''http://a'', ''http://b'', ''http://c'']
       (net_of [Responded 200 JNull, NoResponse ''timeout of 15000ms exceeded'', Responded 200 JNull]) =
     \<lparr>http_status = 200, success = True, message = ''Claim processed'',
      webhookSuccess = Some 2, webhookFailed = Some 1\<rparr>"
    by code_simp+
  have i: "(1::nat) < length [''http://a'', ''http://b'', ''http://c'']"
    by simp
  have n: "net_of [Responded 200 JNull, NoResponse ''timeout of 15000ms exceeded'', Responded 500 JNull]
             1 ([''http://a'', ''http://b'', ''http://c''] ! 1) =
           net_of [Responded 200 JNull, NoResponse ''timeout of 15000ms exceeded'', Responded 200 JNull]
             1 ([''http://a'', ''http://b'', ''http://c''] ! 1)"
    by (simp add: net_of_def)
  note iso = fanout_complete_isolated [of "JStr ''ACME''" "[''http://a'', ''http://b'', ''http://c'']"
      "net_of [Responded 200 JNull, NoResponse ''timeout of 15000ms exceeded'', Responded 200 JNull]"
      "net_of [Responded 200 JNull, NoResponse ''timeout of 15000ms exceeded'', Responded 500 JNull]",
      THEN conjunct2, THEN conjunct2, THEN conjunct2, rule_format, OF i, THEN conjunct2,
      THEN mp, OF n]
  from e(1) iso have d: "details (vendor_webhooks [''http://a'', ''http://b'', ''http://c'']
       (net_of [Responded 200 JNull, NoResponse ''timeout of 15000ms exceeded'', Responded 500 JNull])) ! 1 =
     DetailFailed ''http://b'' ''timeout of 15000ms exceeded''"
    by simp
  from e i d show ?thesis
    by (intro conjI) simp_all
qed

subsection \<open>Empty target list\<close>

text \<open>
  The claim C8 as stated, "whichever of the two behaviours is chosen is the same at every
  call site", fails: with no target configured the claims route (server.js 400-405)
  answers 500 "No webhook URLs configured", while the vendor fan-out of the same file
  (server.js 968-970) skips the dispatch and reports zero successes and zero failures, and
  the first variant of the claims route (server.js 66-87) dispatches to nothing and answers
  200 with zero successes.
\<close>

theorem empty_targets_counterexample:
  "claims_route (JStr ''ACME'') [] (net_of []) =
     \<lparr>http_status = 500, success = False, message = ''No webhook URLs configured'',
      webhookSuccess = None, webhookFailed = None\<rparr> \<and>
   vendor_webhooks [] (net_of []) = \<lparr>successCount = 0, failureCount = 0, details = []\<rparr> \<and>
   claims_route_v1 (JStr ''ACME'') [] (net_of []) =
     \<lparr>http_status = 200, success = True, message = ''Claim and file processed'',
      webhookSuccess = Some 0, webhookFailed = None\<rparr>"
  by code_simp

text \<open>
  C8, amended. For an empty target list every call site does one of the two, each its
  own: the claims route (server.js 400-405, index.js 136-141, part_000) and the vendor
  route of index.js (437-442) fail with status 500 and the message that no webhook URLs are
  configured, without a dispatch; the vendor fan-out of server.js (963-1004) returns the
  report with zero successes, zero failures and no details; the first variant of the claims
  route (server.js 46-93) answers 200 with zero successes.
\<close>

theorem empty_targets_per_site:
  "(truthy supplierName \<longrightarrow>
      claims_route supplierName [] net =
        \<lparr>http_status = 500, success = False, message = ''No webhook URLs configured'',
         webhookSuccess = None, webhookFailed = None\<rparr> \<and>
      claims_route_v1 supplierName [] net =
        \<lparr>http_status = 200, success = True, message = ''Claim and file processed'',
         webhookSuccess = Some 0, webhookFailed = None\<rparr>) \<and>
   vendor_webhooks_index [] net =
     \<lparr>http_status = 500, success = False, message = ''No vendor webhook URLs configured'',
      webhookSuccess = None, webhookFailed = None\<rparr> \<and>
   vendor_webhooks [] net = \<lparr>successCount = 0, failureCount = 0, details = []\<rparr>"
  by (simp add: claims_route_def claims_route_v1_def vendor_webhooks_index_def
      vendor_webhooks_def allSettled_def webhook_requests_def)

theorem empty_targets_per_site_witness:
  "truthy (JStr ''Globex'') \<and>
   http_status (claims_route (JStr ''Globex'') [] (net_of [Responded 200 JNull])) = 500 \<and>
   http_status (claims_route_v1 (JStr ''Globex'') [] (net_of [Responded 200 JNull])) = 200 \<and>
   http_status (vendor_webhooks_index [] (net_of [Responded 200 JNull])) = 500 \<and>
   successCount (vendor_webhooks [] (net_of [Responded 200 JNull])) = 0"
  using empty_targets_per_site [of "JStr ''Globex''" "net_of [Responded 200 JNull]"]
  by simp

section \<open>Properties of the cash slip token\<close>

text \<open>
  C9. In index.js the Name of a cash slip is the constant \<open>tokenNumber\<close>, computed
  once when the module is loaded: the payloads of all requests of one process carry the
  same Name, the token of the load time, whenever the requests arrive. In server.js the
  Name is the token of the time of the request.
\<close>

theorem cash_slip_name_fixed_at_load:
  "sales_create_Name_index (load_index_module load_time) t1 =
     sales_create_Name_index (load_index_module load_time) t2 \<and>
   sales_create_Name_index (load_index_module load_time) t1 = generateToken load_time \<and>
   sales_create_Name t1 = generateToken t1"
  by (simp add: sales_create_Name_index_def load_index_module_def sales_create_Name_def)

text \<open>
  A process loaded on 3 November 2026 at 09:05:59, and requests at 10:00:00 and at
  17:30:15 of that day: index.js names both records CS261103090559, server.js names them
  CS261103100000 and CS261103173015.
\<close>

theorem cash_slip_name_fixed_at_load_witness:
  "sales_create_Name_index
      (load_index_module \<lparr>getFullYear = 2026, getMonth = 10, getDate = 3, getHours = 9,
                           getMinutes = 5, getSeconds = 59\<rparr>)
      \<lparr>getFullYear = 2026, getMonth = 10, getDate = 3, getHours = 10, getMinutes = 0,
       getSeconds = 0\<rparr> = ''CS261103090559'' \<and>
   sales_create_Name_index
      (load_index_module \<lparr>getFullYear = 2026, getMonth = 10, getDate = 3, getHours = 9,
                           getMinutes = 5, getSeconds = 59\<rparr>)
      \<lparr>getFullYear = 2026, getMonth = 10, getDate = 3, getHours = 17, getMinutes = 30,
       getSeconds = 15\<rparr> = ''CS261103090559'' \<and>
   sales_create_Name \<lparr>getFullYear = 2026, getMonth = 10, getDate = 3, getHours = 10,
       getMinutes = 0, getSeconds = 0\<rparr> = ''CS261103100000'' \<and>
   sales_create_Name \<lparr>getFullYear = 2026, getMonth = 10, getDate = 3, getHours = 17,
       getMinutes = 30, getSeconds = 15\<rparr> = ''CS261103173015''"
proof -
  have g: "generateToken \<lparr>getFullYear = 2026, getMonth = 10, getDate = 3, getHours = 9,
                           getMinutes = 5, getSeconds = 59\<rparr> = ''CS261103090559''"
    "generateToken \<lparr>getFullYear = 2026, getMonth = 10, getDate = 3, getHours = 10,
       getMinutes = 0, getSeconds = 0\<rparr> = ''CS261103100000''"
    "generateToken \<lparr>getFullYear = 2026, getMonth = 10, getDate = 3, getHours = 17,
       getMinutes = 30, getSeconds = 15\<rparr> = ''CS261103173015''"
    by code_simp+
  show ?thesis
    using g
      cash_slip_name_fixed_at_load [of
        "\<lparr>getFullYear = 2026, getMonth = 10, getDate = 3, getHours = 9,
          getMinutes = 5, getSeconds = 59\<rparr>"
        "\<lparr>getFullYear = 2026, getMonth = 10, getDate = 3, getHours = 10, getMinutes = 0,
          getSeconds = 0\<rparr>"
        "\<lparr>getFullYear = 2026, getMonth = 10, getDate = 3, getHours = 17, getMinutes = 30,
          getSeconds = 15\<rparr>"]
      cash_slip_name_fixed_at_load [of
        "\<lparr>getFullYear = 2026, getMonth = 10, getDate = 3, getHours = 9,
          getMinutes = 5, getSeconds = 59\<rparr>"
        "\<lparr>getFullYear = 2026, getMonth = 10, getDate = 3, getHours = 17, getMinutes = 30,
          getSeconds = 15\<rparr>"
        "\<lparr>getFullYear = 2026, getMonth = 10, getDate = 3, getHours = 10, getMinutes = 0,
          getSeconds = 0\<rparr>"]
    by simp
qed

section \<open>Properties of the coercion helpers\<close>

lemma strict_eq_prim:
  "strict_eq v (JBool b) = (v = JBool b)"
  "strict_eq v (JNum r) = (v = JNum r)"
  "strict_eq v (JStr s) = (v = JStr s)"
  by (cases v; auto)+

text \<open>
  C10. The three coercion helpers agree on one truthy-literal set: for every value \<open>v\<close>,
  \<open>toYesNo v\<close> is "Yes" exactly when \<open>toBoolean v\<close> is true, exactly when
  \<open>toYesNoNumber v\<close> is 1, exactly when \<open>v\<close> is one of true, "true", 1, "1", "Yes",
  "yes", "on"; every other value is sent to "No", false and 0. The same holds of the
  inline copies in index.js. The helpers are total: they are defined by a chain of strict
  comparisons, which never throw.
\<close>

theorem coercion_helpers_agree:
  "(toYesNo v = ''Yes'') = (v \<in> truthy_literals) \<and>
   toBoolean v = (v \<in> truthy_literals) \<and>
   (toYesNoNumber v = 1) = (v \<in> truthy_literals) \<and>
   toYesNo v = (if v \<in> truthy_literals then ''Yes'' else ''No'') \<and>
   toYesNoNumber v = (if v \<in> truthy_literals then 1 else 0) \<and>
   toYesNo_inline v = toYesNo v \<and>
   toBoolean_inline v = toBoolean v \<and>
   toYesNoNumber_inline v = toYesNoNumber v"
  by (simp add: toYesNo_def toBoolean_def toYesNoNumber_def toYesNo_inline_def
      toBoolean_inline_def toYesNoNumber_inline_def truthy_literals_def strict_eq_prim)

theorem coercion_helpers_agree_witness:
  "toYesNo (JStr ''on'') = ''Yes'' \<and> toBoolean (JStr ''on'') \<and> toYesNoNumber (JStr ''on'') = 1 \<and>
   toYesNo (JStr ''TRUE'') = ''No'' \<and> \<not> toBoolean (JNum 2) \<and> toYesNoNumber JNull = 0"
  using coercion_helpers_agree [of "JStr ''on''"] coercion_helpers_agree [of "JStr ''TRUE''"]
    coercion_helpers_agree [of "JNum 2"] coercion_helpers_agree [of JNull]
  by (simp add: truthy_literals_def)

end
